theory Spec2Isabelle
  imports Main "HOL-Library.Sublist" "HOL-Library.Multiset"
begin

section \<open>The polls application: entities and the recency predicate\<close>

subsection \<open>Timestamps\<close>

text \<open>
  A \<open>datetime\<close> is an instant, counted in microseconds (the resolution of Python's
  \<open>datetime\<close>); a \<open>timedelta\<close> is a signed number of microseconds. All instants
  live on one timeline, as the values that \<open>timezone.now()\<close> returns and that a
  \<open>DateTimeField\<close> stores do. The ends of Python's datetime range (the years 1 and
  9999) are not modelled: \<open>now\<close> is the present instant, more than a day away from both.
\<close>

type_synonym datetime = int

text \<open>\<open>datetime.timedelta(days=d, hours=h, minutes=m, seconds=s)\<close>.\<close>

definition timedelta :: "int \<Rightarrow> int \<Rightarrow> int \<Rightarrow> int \<Rightarrow> int" where
  "timedelta days hours minutes seconds =
     (((days * 24 + hours) * 60 + minutes) * 60 + seconds) * 1000000"

text \<open>
  Python's \<open>a <= b\<close> on datetimes. A nullable field holds \<open>None\<close> as \<open>None\<close>;
  ordering a datetime against \<open>None\<close> raises \<open>TypeError\<close>.
\<close>

datatype error = TypeError

fun datetime_le :: "datetime option \<Rightarrow> datetime option \<Rightarrow> error + bool" where
  "datetime_le (Some a) (Some b) = Inr (a \<le> b)"
| "datetime_le _ _ = Inl TypeError"

text \<open>
  The chained comparison \<open>a <= b <= c\<close>: \<open>a <= b\<close> is evaluated first, and
  \<open>b <= c\<close> only when the first comparison is true.
\<close>

definition chained_le :: "datetime option \<Rightarrow> datetime option \<Rightarrow> datetime option \<Rightarrow> error + bool" where
  "chained_le a b c =
     (case datetime_le a b of
        Inl e \<Rightarrow> Inl e
      | Inr ok \<Rightarrow> if ok then datetime_le b c else Inr False)"

subsection \<open>Entities\<close>

text \<open>
  \<open>pk\<close> is the surrogate key that the framework adds to every model (the source
  reads it as \<open>id\<close>). \<open>pub_date\<close> of a Question is a required column, but an instance
  in memory may still hold \<open>None\<close> there, so both entities carry an optional timestamp.
\<close>

record Question =
  pk :: nat
  question_text :: string
  pub_date :: "datetime option"
  author_name :: "string option"

record Choice =
  pk :: nat
  question :: nat
  choice_text :: string
  votes :: int
  pub_date :: "datetime option"

text \<open>
  \<open>Choice(question=q, choice_text=s, votes=v, pub_date=d)\<close>: a keyword that is left
  out takes the field's default, \<open>0\<close> for \<open>votes\<close> and \<open>None\<close> for \<open>pub_date\<close>.
\<close>

definition Choice_init :: "nat \<Rightarrow> nat \<Rightarrow> string \<Rightarrow> int option \<Rightarrow> datetime option \<Rightarrow> Choice" where
  "Choice_init i q s v d =
     \<lparr>Choice.pk = i, question = q, choice_text = s,
      votes = (case v of None \<Rightarrow> 0 | Some n \<Rightarrow> n), Choice.pub_date = d\<rparr>"

definition Question_str :: "Question \<Rightarrow> string" where
  "Question_str self = question_text self"

definition Choice_str :: "Choice \<Rightarrow> string" where
  "Choice_str self = choice_text self"

subsection \<open>Recency\<close>

text \<open>
  \<open>was_published_recently\<close>, with the value of \<open>timezone.now()\<close> as the argument
  \<open>now\<close>. The Question method compares at once; the Choice method tests
  \<open>self.pub_date is not None\<close> first, and \<open>and\<close> evaluates its right operand only
  when that test holds.
\<close>

definition Question_was_published_recently :: "datetime \<Rightarrow> Question \<Rightarrow> error + bool" where
  "Question_was_published_recently now self =
     chained_le (Some (now - timedelta 1 0 0 0)) (Question.pub_date self) (Some now)"

definition Choice_was_published_recently :: "datetime \<Rightarrow> Choice \<Rightarrow> error + bool" where
  "Choice_was_published_recently now self =
     (if Choice.pub_date self \<noteq> None
      then chained_le (Some (now - timedelta 1 0 0 0)) (Choice.pub_date self) (Some now)
      else Inr False)"

subsection \<open>Method calls\<close>

text \<open>
  A call runs in a state: the instance \<open>self\<close> that the method may read and assign to,
  and the system clock. The clock is the sequence \<open>readings\<close> of instants that it gives
  on successive readings, with the count \<open>reads\<close> of the readings taken so far, so that
  two readings in one call need not agree.
\<close>

record 'a call_state =
  self :: 'a
  readings :: "nat \<Rightarrow> datetime"
  reads :: nat

text \<open>\<open>timezone.now()\<close> takes the next reading of the clock.\<close>

definition timezone_now :: "'a call_state \<Rightarrow> datetime \<times> 'a call_state" where
  "timezone_now s = (readings s (reads s), s\<lparr>reads := Suc (reads s)\<rparr>)"

text \<open>
  The two methods as steps on that state, statement by statement:
  \<open>now = timezone.now()\<close>, then the \<open>return\<close> of the comparison, evaluated on \<open>now\<close>
  and on the instance as the state holds it.
\<close>

definition Question_was_published_recently_step ::
    "Question call_state \<Rightarrow> (error + bool) \<times> Question call_state" where
  "Question_was_published_recently_step s =
     (let (now, s') = timezone_now s
      in (Question_was_published_recently now (self s'), s'))"

definition Choice_was_published_recently_step ::
    "Choice call_state \<Rightarrow> (error + bool) \<times> Choice call_state" where
  "Choice_was_published_recently_step s =
     (let (now, s') = timezone_now s
      in (Choice_was_published_recently now (self s'), s'))"

text \<open>
  A call of the Choice method on the instance \<open>self\<close> while the clock reads \<open>now\<close>: its
  result, and the instance as the call leaves it.
\<close>

definition Choice_was_published_recently_call ::
    "datetime \<Rightarrow> Choice \<Rightarrow> (error + bool) \<times> Choice" where
  "Choice_was_published_recently_call now c =
     (let (r, s) = Choice_was_published_recently_step
                     \<lparr>self = c, readings = (\<lambda>n. now), reads = 0\<rparr>
      in (r, self s))"

subsection \<open>The question table and the test helper\<close>

text \<open>
  The table of Questions is the list of its rows in the order of their creation.
  \<open>Question.objects.create(question_text=s, pub_date=d)\<close> stores a new row under a
  fresh key and returns it.
\<close>

definition objects_create ::
    "Question list \<Rightarrow> string \<Rightarrow> datetime \<Rightarrow> Question \<times> Question list" where
  "objects_create db s d =
     (let q = \<lparr>Question.pk = Suc (fold max (map Question.pk db) 0), question_text = s,
                Question.pub_date = Some d, author_name = None\<rparr>
      in (q, db @ [q]))"

text \<open>
  \<open>create_question(question_text, days)\<close> of the test module: the publication date is
  \<open>days\<close> days away from \<open>timezone.now()\<close>, negative for the past. The argument
  \<open>text\<close> is the source's \<open>question_text\<close>, which names the field here.
\<close>

definition create_question ::
    "datetime \<Rightarrow> Question list \<Rightarrow> string \<Rightarrow> int \<Rightarrow> Question \<times> Question list" where
  "create_question now db text days =
     (let time = now + timedelta days 0 0 0 in objects_create db text time)"

subsection \<open>The views\<close>

text \<open>
  Modelled from the spec: the view module of the application (the index and detail
  views behind the routes \<open>polls:index\<close> and \<open>polls:detail\<close>) is not among the
  sources; only its tests are. The selection of the listing is "all Questions whose
  \<open>pub_date\<close> \<open>\<le>\<close> now". A row without a date is not selected.
\<close>

definition published :: "datetime \<Rightarrow> Question \<Rightarrow> bool" where
  "published now q = (case Question.pub_date q of None \<Rightarrow> False | Some t \<Rightarrow> t \<le> now)"

text \<open>
  Modelled from the spec: the sort key of the listing, which is missing with the view
  module. The listing is ordered "descending by \<open>pub_date\<close>", so the key is the negated
  instant; it is only ever taken of selected rows, which have a date.
\<close>

definition pub_instant :: "Question \<Rightarrow> datetime" where
  "pub_instant q = (case Question.pub_date q of None \<Rightarrow> 0 | Some t \<Rightarrow> t)"

text \<open>
  Modelled from the spec: the query of the index view, missing with the view module:
  "select all Questions whose \<open>pub_date\<close> \<open>\<le>\<close> now, order descending by \<open>pub_date\<close>
  (ties broken by insertion/creation order as a stable secondary key)".
  \<open>sort_key\<close> is insertion sort, which keeps rows of equal key in their order.
\<close>

definition get_queryset :: "datetime \<Rightarrow> Question list \<Rightarrow> Question list" where
  "get_queryset now db = sort_key (\<lambda>q. - pub_instant q) (filter (published now) db)"

text \<open>
  Modelled from the spec: the responses of the views, which are missing with the view
  module: a status code and the rendered content, and for the index view the context
  value \<open>latest_question_list\<close>.
\<close>

record response =
  status_code :: nat
  content :: string

record index_response = response +
  latest_question_list :: "Question list"

text \<open>
  Modelled from the spec: the index view, missing with the view module: "GET index
  \<open>\<rightarrow>\<close> 200 with a \<open>latest_question_list\<close> context value (possibly empty)", and
  "render an empty-state message when the result set is empty". The spec does not say
  how a non-empty list is rendered; that rendering is the parameter \<open>listing\<close>.
\<close>

definition index :: "(Question list \<Rightarrow> string) \<Rightarrow> datetime \<Rightarrow> Question list \<Rightarrow> index_response" where
  "index listing now db =
     (let qs = get_queryset now db
      in \<lparr>status_code = 200,
          content = (if qs = [] then ''No polls are available.'' else listing qs),
          latest_question_list = qs\<rparr>)"

text \<open>
  Modelled from the spec: the detail view, missing with the view module: "fetch a single
  Question by identity; if its \<open>pub_date\<close> is in the future (or it does not exist),
  surface a not-found condition (HTTP 404 equivalent) rather than rendering it", and
  "GET detail/<id> \<open>\<rightarrow>\<close> 200 with question text".
\<close>

definition detail :: "datetime \<Rightarrow> Question list \<Rightarrow> nat \<Rightarrow> response" where
  "detail now db i =
     (case find (\<lambda>q. Question.pk q = i) db of
        None \<Rightarrow> \<lparr>status_code = 404, content = ''Not Found''\<rparr>
      | Some q \<Rightarrow>
          if published now q then \<lparr>status_code = 200, content = question_text q\<rparr>
          else \<lparr>status_code = 404, content = ''Not Found''\<rparr>)"

section \<open>Properties of the recency predicate\<close>

lemma chained_le_Some:
  "chained_le (Some a) (Some b) (Some c) = Inr (a \<le> b \<and> b \<le> c)"
  by (simp add: chained_le_def)

lemma chained_le_None: "chained_le a None c = Inl TypeError"
  by (cases a) (simp_all add: chained_le_def)

text \<open>
  C1. For a Question whose \<open>pub_date\<close> is the timestamp \<open>t\<close>, the method returns
  true exactly when \<open>now - 1 day \<le> t \<le> now\<close>. Both ends are included: a timestamp
  exactly 24 hours old and the timestamp \<open>now\<close> give true; one second more than a day
  old gives false, and so does every timestamp after \<open>now\<close>.
\<close>

theorem Question_recent_iff_window:
  "Question_was_published_recently now (q\<lparr>Question.pub_date := Some t\<rparr>)
     = Inr (now - timedelta 1 0 0 0 \<le> t \<and> t \<le> now)
   \<and> Question_was_published_recently now
        (q\<lparr>Question.pub_date := Some (now - timedelta 0 24 0 0)\<rparr>) = Inr True
   \<and> Question_was_published_recently now (q\<lparr>Question.pub_date := Some now\<rparr>) = Inr True
   \<and> Question_was_published_recently now
        (q\<lparr>Question.pub_date := Some (now - timedelta 1 0 0 1)\<rparr>) = Inr False
   \<and> (now < t \<longrightarrow>
        Question_was_published_recently now (q\<lparr>Question.pub_date := Some t\<rparr>) = Inr False)"
  by (simp add: Question_was_published_recently_def chained_le_Some timedelta_def)

theorem Question_recent_iff_window_witness:
  "(0::int) < 1 \<and>
   Question_was_published_recently 0
     (\<lparr>Question.pk = 1, question_text = ''Future question.'',
       pub_date = None, author_name = None\<rparr>\<lparr>Question.pub_date := Some 1\<rparr>) = Inr False"
  using Question_recent_iff_window
    [where now = 0 and t = 1 and q = "\<lparr>Question.pk = 1,
       question_text = ''Future question.'', pub_date = None, author_name = None\<rparr>"]
  by simp

text \<open>
  C2. A Choice without a \<open>pub_date\<close> is not recently published, and the Choice method
  raises for no Choice and no instant: it always returns a boolean.
\<close>

theorem Choice_recent_never_raises:
  "(\<exists>b. Choice_was_published_recently now c = Inr b)
   \<and> (Choice.pub_date c = None \<longrightarrow> Choice_was_published_recently now c = Inr False)"
  by (cases "Choice.pub_date c")
     (auto simp add: Choice_was_published_recently_def chained_le_Some)

theorem Choice_recent_never_raises_witness:
  "Choice.pub_date (Choice_init 1 1 ''Not much'' None None) = None
   \<and> Choice_was_published_recently 0 (Choice_init 1 1 ''Not much'' None None) = Inr False"
  using Choice_recent_never_raises [of 0 "Choice_init 1 1 ''Not much'' None None"]
  by (simp add: Choice_init_def)

text \<open>
  C3. When a Choice and a Question carry the same timestamp, the two methods return the
  same result at the same instant; the methods differ only where the date is missing,
  where the Choice method answers false and the Question method raises.
\<close>

theorem Choice_recent_eq_Question_recent:
  "Question.pub_date q = Some t \<Longrightarrow> Choice.pub_date c = Some t \<Longrightarrow>
     Choice_was_published_recently now c = Question_was_published_recently now q"
  by (simp add: Choice_was_published_recently_def Question_was_published_recently_def)

theorem Choice_recent_eq_Question_recent_witness:
  "Choice_was_published_recently 100 (Choice_init 1 1 ''Not much'' None (Some 40))
     = Question_was_published_recently 100 (fst (objects_create [] ''What is up?'' 40))
   \<and> Question_was_published_recently 100 (fst (objects_create [] ''What is up?'' 40))
     = Inr True"
proof -
  have q: "Question.pub_date (fst (objects_create [] ''What is up?'' 40)) = Some 40"
    by (simp add: objects_create_def Let_def)
  have c: "Choice.pub_date (Choice_init 1 1 ''Not much'' None (Some 40)) = Some 40"
    by (simp add: Choice_init_def)
  have "Question_was_published_recently 100 (fst (objects_create [] ''What is up?'' 40))
          = Inr True"
    by (simp add: Question_was_published_recently_def objects_create_def Let_def
        chained_le_Some timedelta_def)
  with Choice_recent_eq_Question_recent [OF q c, of 100] show ?thesis by simp
qed

lemma Question_step_eq:
  "Question_was_published_recently_step s
     = (Question_was_published_recently (readings s (reads s)) (self s),
        s\<lparr>reads := Suc (reads s)\<rparr>)"
  by (simp add: Question_was_published_recently_step_def timezone_now_def)

lemma Choice_step_eq:
  "Choice_was_published_recently_step s
     = (Choice_was_published_recently (readings s (reads s)) (self s),
        s\<lparr>reads := Suc (reads s)\<rparr>)"
  by (simp add: Choice_was_published_recently_step_def timezone_now_def)

text \<open>
  C4. A call of \<open>was_published_recently\<close> reads the clock once, and its result is
  determined by that reading \<open>now\<close> and by the entity's \<open>pub_date\<close>: two calls whose
  entities agree on \<open>pub_date\<close> and whose clocks give the same reading return the same
  result, whatever the other fields hold and whatever the clocks give later; on a dated
  entity the result is the window test on \<open>now\<close> and the date. The call has no side
  effect: it leaves the entity as it was, every field unchanged, and the state differs
  from the one before only in the count of clock readings.
\<close>

theorem recent_pure_deterministic:
  "(Question.pub_date (self s) = Question.pub_date (self s')
      \<and> readings s (reads s) = readings s' (reads s') \<longrightarrow>
      fst (Question_was_published_recently_step s)
        = fst (Question_was_published_recently_step s'))
   \<and> (Choice.pub_date (self u) = Choice.pub_date (self u')
      \<and> readings u (reads u) = readings u' (reads u') \<longrightarrow>
      fst (Choice_was_published_recently_step u)
        = fst (Choice_was_published_recently_step u'))
   \<and> (Question.pub_date (self s) = Some t \<longrightarrow>
        fst (Question_was_published_recently_step s)
          = Inr (readings s (reads s) - timedelta 1 0 0 0 \<le> t \<and> t \<le> readings s (reads s)))
   \<and> (Choice.pub_date (self u) = Some t \<longrightarrow>
        fst (Choice_was_published_recently_step u)
          = Inr (readings u (reads u) - timedelta 1 0 0 0 \<le> t \<and> t \<le> readings u (reads u)))
   \<and> self (snd (Question_was_published_recently_step s)) = self s
   \<and> self (snd (Choice_was_published_recently_step u)) = self u
   \<and> snd (Question_was_published_recently_step s) = s\<lparr>reads := Suc (reads s)\<rparr>
   \<and> snd (Choice_was_published_recently_step u) = u\<lparr>reads := Suc (reads u)\<rparr>"
  by (simp add: Question_step_eq Choice_step_eq Question_was_published_recently_def
      Choice_was_published_recently_def chained_le_Some)

text \<open>
  Two Questions and two Choices of the same date but different other fields, under two
  clocks that agree on the first reading, \<open>100\<close>, and differ on the second.
\<close>

theorem recent_pure_deterministic_witness:
  "Question.pub_date (fst (objects_create [] ''What is up?'' 40))
     = Question.pub_date (fst (objects_create [] ''Who is there?'' 40))
   \<and> fst (objects_create [] ''What is up?'' 40) \<noteq> fst (objects_create [] ''Who is there?'' 40)
   \<and> (100::int) + int 0 = 100 + 7 * int 0
   \<and> (100::int) + int 1 \<noteq> 100 + 7 * int 1
   \<and> fst (Question_was_published_recently_step
        \<lparr>self = fst (objects_create [] ''What is up?'' 40),
         readings = (\<lambda>n. 100 + int n), reads = 0\<rparr>) = Inr True
   \<and> fst (Question_was_published_recently_step
        \<lparr>self = fst (objects_create [] ''Who is there?'' 40),
         readings = (\<lambda>n. 100 + 7 * int n), reads = 0\<rparr>) = Inr True
   \<and> Choice.pub_date (Choice_init 1 1 ''Not much'' None (Some 40))
     = Choice.pub_date (Choice_init 2 1 ''The sky'' (Some 3) (Some 40))
   \<and> fst (Choice_was_published_recently_step
        \<lparr>self = Choice_init 1 1 ''Not much'' None (Some 40),
         readings = (\<lambda>n. 100 + int n), reads = 0\<rparr>) = Inr True
   \<and> fst (Choice_was_published_recently_step
        \<lparr>self = Choice_init 2 1 ''The sky'' (Some 3) (Some 40),
         readings = (\<lambda>n. 100 + 7 * int n), reads = 0\<rparr>) = Inr True
   \<and> snd (Choice_was_published_recently_step
        \<lparr>self = Choice_init 2 1 ''The sky'' (Some 3) (Some 40),
         readings = (\<lambda>n. 100 + 7 * int n), reads = 0\<rparr>)
       = \<lparr>self = Choice_init 2 1 ''The sky'' (Some 3) (Some 40),
          readings = (\<lambda>n. 100 + 7 * int n), reads = 1\<rparr>"
  using recent_pure_deterministic
    [where t = 40
       and s = "\<lparr>self = fst (objects_create [] ''What is up?'' 40),
                 readings = (\<lambda>n. 100 + int n), reads = 0\<rparr>"
       and s' = "\<lparr>self = fst (objects_create [] ''Who is there?'' 40),
                  readings = (\<lambda>n. 100 + 7 * int n), reads = 0\<rparr>"
       and u = "\<lparr>self = Choice_init 1 1 ''Not much'' None (Some 40),
                 readings = (\<lambda>n. 100 + int n), reads = 0\<rparr>"
       and u' = "\<lparr>self = Choice_init 2 1 ''The sky'' (Some 3) (Some 40),
                  readings = (\<lambda>n. 100 + 7 * int n), reads = 0\<rparr>"]
    recent_pure_deterministic
    [where t = 40
       and u = "\<lparr>self = Choice_init 2 1 ''The sky'' (Some 3) (Some 40),
                 readings = (\<lambda>n. 100 + 7 * int n), reads = 0\<rparr>"]
  by (simp add: objects_create_def Let_def Choice_init_def timedelta_def)

text \<open>
  C9. The Question method has no guard against a missing date: on a Question whose
  \<open>pub_date\<close> is \<open>None\<close> the comparison raises \<open>TypeError\<close>, and on every Question
  whose \<open>pub_date\<close> is set the method returns a boolean.
\<close>

theorem Question_recent_defined_iff_dated:
  "(Question.pub_date q = None \<longrightarrow> Question_was_published_recently now q = Inl TypeError)
   \<and> (Question.pub_date q \<noteq> None \<longrightarrow> (\<exists>b. Question_was_published_recently now q = Inr b))"
  by (cases "Question.pub_date q")
     (simp_all add: Question_was_published_recently_def chained_le_Some chained_le_None)

theorem Question_recent_defined_iff_dated_witness:
  "Question.pub_date \<lparr>Question.pk = 1, question_text = ''What is up?'',
       pub_date = None, author_name = None\<rparr> = None
   \<and> Question_was_published_recently 100 \<lparr>Question.pk = 1, question_text = ''What is up?'',
       pub_date = None, author_name = None\<rparr> = Inl TypeError
   \<and> Question.pub_date (fst (objects_create [] ''What is up?'' 40)) \<noteq> None
   \<and> (\<exists>b. Question_was_published_recently 100 (fst (objects_create [] ''What is up?'' 40))
          = Inr b)"
  using Question_recent_defined_iff_dated
      [where now = 100 and q = "\<lparr>Question.pk = 1, question_text = ''What is up?'',
         pub_date = None, author_name = None\<rparr>"]
    Question_recent_defined_iff_dated
      [where now = 100 and q = "fst (objects_create [] ''What is up?'' 40)"]
  by (simp add: objects_create_def Let_def)

text \<open>
  C10. At a fixed instant \<open>now\<close> the predicate is monotone on past timestamps: when it
  holds for the date \<open>t\<close> and \<open>t \<le> t' \<le> now\<close>, it holds for the date \<open>t'\<close>, for a
  Question and for a Choice.
\<close>

theorem recent_monotone_on_past:
  "t \<le> t' \<Longrightarrow> t' \<le> now \<Longrightarrow>
   (Question_was_published_recently now (q\<lparr>Question.pub_date := Some t\<rparr>) = Inr True \<longrightarrow>
      Question_was_published_recently now (q\<lparr>Question.pub_date := Some t'\<rparr>) = Inr True)
   \<and> (Choice_was_published_recently now (c\<lparr>Choice.pub_date := Some t\<rparr>) = Inr True \<longrightarrow>
      Choice_was_published_recently now (c\<lparr>Choice.pub_date := Some t'\<rparr>) = Inr True)"
  by (simp add: Question_was_published_recently_def Choice_was_published_recently_def
      chained_le_Some)

theorem recent_monotone_on_past_witness:
  "(40::int) \<le> 70 \<and> (70::int) \<le> 100
   \<and> Question_was_published_recently 100
       ((fst (objects_create [] ''What is up?'' 0))\<lparr>Question.pub_date := Some 40\<rparr>) = Inr True
   \<and> Question_was_published_recently 100
       ((fst (objects_create [] ''What is up?'' 0))\<lparr>Question.pub_date := Some 70\<rparr>) = Inr True
   \<and> Choice_was_published_recently 100
       ((Choice_init 1 1 ''Not much'' None None)\<lparr>Choice.pub_date := Some 40\<rparr>) = Inr True
   \<and> Choice_was_published_recently 100
       ((Choice_init 1 1 ''Not much'' None None)\<lparr>Choice.pub_date := Some 70\<rparr>) = Inr True"
proof -
  have a: "(40::int) \<le> 70" and b: "(70::int) \<le> 100" by simp_all
  have qt: "Question_was_published_recently 100
       ((fst (objects_create [] ''What is up?'' 0))\<lparr>Question.pub_date := Some 40\<rparr>) = Inr True"
    by (simp add: Question_was_published_recently_def chained_le_Some timedelta_def
        objects_create_def Let_def)
  have ct: "Choice_was_published_recently 100
       ((Choice_init 1 1 ''Not much'' None None)\<lparr>Choice.pub_date := Some 40\<rparr>) = Inr True"
    by (simp add: Choice_was_published_recently_def chained_le_Some timedelta_def)
  from recent_monotone_on_past [OF a b,
      where q = "fst (objects_create [] ''What is up?'' 0)"
        and c = "Choice_init 1 1 ''Not much'' None None"] qt ct
  show ?thesis by simp
qed

section \<open>Properties of the views\<close>

lemma published_iff: "published now q = (\<exists>t. Question.pub_date q = Some t \<and> t \<le> now)"
  by (simp add: published_def split: option.splits)

lemma pub_instant_Some: "Question.pub_date q = Some t \<Longrightarrow> pub_instant q = t"
  by (simp add: pub_instant_def)

lemma get_queryset_mset:
  "mset (get_queryset now db) = filter_mset (published now) (mset db)"
  by (simp add: get_queryset_def)

lemma get_queryset_set:
  "set (get_queryset now db) = {q \<in> set db. published now q}"
  by (simp add: get_queryset_def)

lemma get_queryset_sorted:
  "sorted_wrt (\<lambda>a b. pub_instant b \<le> pub_instant a) (get_queryset now db)"
proof -
  have "sorted (map (\<lambda>q. - pub_instant q) (get_queryset now db))"
    unfolding get_queryset_def by (rule sorted_sort_key)
  then show ?thesis by (simp add: sorted_map)
qed

lemma get_queryset_sorted_dates:
  "sorted_wrt (\<lambda>a b. \<exists>s t. Question.pub_date a = Some s \<and> Question.pub_date b = Some t \<and> t \<le> s)
     (get_queryset now db)"
proof (rule sorted_wrt_mono_rel [OF _ get_queryset_sorted])
  fix a b
  assume a: "a \<in> set (get_queryset now db)" and b: "b \<in> set (get_queryset now db)"
    and le: "pub_instant b \<le> pub_instant a"
  from a obtain s where s: "Question.pub_date a = Some s"
    by (auto simp add: get_queryset_set published_iff)
  from b obtain t where t: "Question.pub_date b = Some t"
    by (auto simp add: get_queryset_set published_iff)
  from le s t have "t \<le> s" by (simp add: pub_instant_Some)
  with s t show "\<exists>s t. Question.pub_date a = Some s \<and> Question.pub_date b = Some t \<and> t \<le> s"
    by simp
qed

lemma get_queryset_empty:
  "(get_queryset now db = []) = (\<forall>q \<in> set db. \<not> published now q)"
proof -
  have "(get_queryset now db = []) = (set (get_queryset now db) = {})" by simp
  also have "\<dots> = (\<forall>q \<in> set db. \<not> published now q)"
    by (auto simp add: get_queryset_set)
  finally show ?thesis .
qed


lemma find_pk_distinct:
  "distinct (map Question.pk db) \<Longrightarrow> q \<in> set db \<Longrightarrow>
     find (\<lambda>r. Question.pk r = Question.pk q) db = Some q"
proof (induction db)
  case Nil
  then show ?case by simp
next
  case (Cons r db)
  show ?case
  proof (cases "r = q")
    case True
    then show ?thesis by simp
  next
    case False
    with Cons.prems have q: "q \<in> set db" by simp
    with Cons.prems have "Question.pk r \<noteq> Question.pk q" by force
    moreover from Cons.prems have "distinct (map Question.pk db)" by simp
    ultimately show ?thesis using Cons.IH q by simp
  qed
qed

lemma find_pk_None: "(find (\<lambda>r. Question.pk r = i) db = None) = (\<forall>q \<in> set db. Question.pk q \<noteq> i)"
  by (induction db) simp_all

lemma find_pk_SomeD: "find (\<lambda>r. Question.pk r = i) db = Some q \<Longrightarrow> q \<in> set db \<and> Question.pk q = i"
  by (induction db) (simp_all split: if_splits)



lemma get_queryset_stable:
  "filter (\<lambda>q. Question.pub_date q = Some t) (get_queryset now db)
     = filter (\<lambda>q. Question.pub_date q = Some t) (filter (published now) db)"
proof -
  let ?P = "\<lambda>q. Question.pub_date q = Some t"
  let ?f = "\<lambda>q. - pub_instant q"
  have narrow: "filter ?P xs = filter ?P (filter (\<lambda>q. ?f q = - t) xs)" for xs
    by (induction xs) (auto simp add: pub_instant_Some)
  have "filter ?P (get_queryset now db)
          = filter ?P (filter (\<lambda>q. ?f q = - t) (sort_key ?f (filter (published now) db)))"
    unfolding get_queryset_def by (rule narrow)
  also have "\<dots> = filter ?P (filter (\<lambda>q. ?f q = - t) (filter (published now) db))"
    by (simp only: sort_key_stable)
  also have "\<dots> = filter ?P (filter (published now) db)"
    by (rule narrow [symmetric])
  finally show ?thesis .
qed

lemma two_past_questions:
  "now \<le> now' \<Longrightarrow> get_queryset now'
       (snd (create_question now (snd (create_question now [] ''Past question 1.'' (- 30)))
              ''Past question 2.'' (- 5)))
     = [fst (create_question now (snd (create_question now [] ''Past question 1.'' (- 30)))
              ''Past question 2.'' (- 5)),
        fst (create_question now [] ''Past question 1.'' (- 30))]"
  by (simp add: get_queryset_def create_question_def objects_create_def Let_def
      published_def pub_instant_def timedelta_def)

text \<open>
  C5. The listing holds exactly the Questions of the table whose \<open>pub_date\<close> is at most
  \<open>now\<close>, each as often as the table does, so no Question dated after \<open>now\<close> is in
  it. It is ordered by \<open>pub_date\<close>, latest first, and the Questions of one and the same
  date stand in the order of their creation. Two Questions created 30 and 5 days in the
  past are listed as the one of 5 days ago, then the one of 30 days ago.
\<close>

theorem index_listing_selected_and_ordered:
  "mset (get_queryset now db)
     = {#q \<in># mset db. \<exists>t. Question.pub_date q = Some t \<and> t \<le> now#}
   \<and> (\<forall>q \<in> set (get_queryset now db). \<forall>t. Question.pub_date q = Some t \<longrightarrow> t \<le> now)
   \<and> sorted_wrt (\<lambda>a b. \<exists>s t. Question.pub_date a = Some s \<and> Question.pub_date b = Some t \<and> t \<le> s)
        (get_queryset now db)
   \<and> (\<forall>t. filter (\<lambda>q. Question.pub_date q = Some t) (get_queryset now db)
            = filter (\<lambda>q. Question.pub_date q = Some t \<and> t \<le> now) db)
   \<and> (now0 \<le> now \<longrightarrow>
        get_queryset now
          (snd (create_question now0 (snd (create_question now0 [] ''Past question 1.'' (- 30)))
                 ''Past question 2.'' (- 5)))
        = [fst (create_question now0 (snd (create_question now0 [] ''Past question 1.'' (- 30)))
                 ''Past question 2.'' (- 5)),
           fst (create_question now0 [] ''Past question 1.'' (- 30))])"
proof -
  have sel: "mset (get_queryset now db)
               = {#q \<in># mset db. \<exists>t. Question.pub_date q = Some t \<and> t \<le> now#}"
  proof -
    have "published now = (\<lambda>q. \<exists>t. Question.pub_date q = Some t \<and> t \<le> now)"
      by (rule ext) (rule published_iff)
    then show ?thesis by (simp add: get_queryset_mset)
  qed
  have past: "\<forall>q \<in> set (get_queryset now db). \<forall>t. Question.pub_date q = Some t \<longrightarrow> t \<le> now"
    by (auto simp add: get_queryset_set published_iff)
  have ties: "filter (\<lambda>q. Question.pub_date q = Some t) (get_queryset now db)
                = filter (\<lambda>q. Question.pub_date q = Some t \<and> t \<le> now) db" for t
  proof -
    have "(published now q \<and> Question.pub_date q = Some t)
            = (Question.pub_date q = Some t \<and> t \<le> now)" for q
      by (auto simp add: published_iff)
    then have "filter (\<lambda>q. Question.pub_date q = Some t) (filter (published now) db)
                 = filter (\<lambda>q. Question.pub_date q = Some t \<and> t \<le> now) db"
      by simp
    with get_queryset_stable [of t now db] show ?thesis by simp
  qed
  from sel past get_queryset_sorted_dates [of now db] ties two_past_questions [of now0 now]
  show ?thesis by blast
qed

theorem index_listing_selected_and_ordered_witness:
  "(0::int) \<le> 1
   \<and> get_queryset 1
        (snd (create_question 0 (snd (create_question 0 [] ''Past question 1.'' (- 30)))
               ''Past question 2.'' (- 5)))
       = [\<lparr>Question.pk = 2, question_text = ''Past question 2.'',
           pub_date = Some (- 432000000000), author_name = None\<rparr>,
          \<lparr>Question.pk = 1, question_text = ''Past question 1.'',
           pub_date = Some (- 2592000000000), author_name = None\<rparr>]
   \<and> (- 432000000000::int) \<le> 1 \<and> (- 2592000000000::int) \<le> 1"
  using index_listing_selected_and_ordered
    [where now = 1 and ?now0.0 = 0
       and db = "snd (create_question 0 (snd (create_question 0 [] ''Past question 1.'' (- 30)))
                       ''Past question 2.'' (- 5))"]
  by (simp add: create_question_def objects_create_def Let_def timedelta_def)

lemma index_of_nothing_published:
  assumes "\<forall>q \<in> set db. \<not> published now q"
  shows "index listing now db
           = \<lparr>status_code = 200, content = ''No polls are available.'',
              latest_question_list = []\<rparr>"
proof -
  from assms have "get_queryset now db = []" by (simp add: get_queryset_empty)
  then show ?thesis by (simp add: index_def)
qed

lemma index_status: "status_code (index listing now db) = 200"
  by (simp add: index_def Let_def)

text \<open>
  C6. When the table holds no published Question, because it is empty or because every
  Question in it is dated after \<open>now\<close>, the index view answers with status 200, its
  content contains the message "No polls are available.", and \<open>latest_question_list\<close>
  is the empty list.
\<close>

theorem index_empty_state:
  "\<forall>q \<in> set db. \<forall>t. Question.pub_date q = Some t \<longrightarrow> now < t \<Longrightarrow>
     status_code (index listing now db) = 200
   \<and> sublist ''No polls are available.'' (content (index listing now db))
   \<and> latest_question_list (index listing now db) = []"
proof -
  assume future: "\<forall>q \<in> set db. \<forall>t. Question.pub_date q = Some t \<longrightarrow> now < t"
  have "\<forall>q \<in> set db. \<not> published now q"
  proof
    fix q assume "q \<in> set db"
    with future show "\<not> published now q" by (fastforce simp add: published_iff)
  qed
  then have "index listing now db
               = \<lparr>status_code = 200, content = ''No polls are available.'',
                  latest_question_list = []\<rparr>"
    by (rule index_of_nothing_published)
  then show ?thesis by simp
qed

theorem index_empty_state_witness:
  "snd (create_question 0 [] ''Future question.'' 30)
     = [\<lparr>Question.pk = 1, question_text = ''Future question.'',
         pub_date = Some 2592000000000, author_name = None\<rparr>]
   \<and> (1::int) < 2592000000000
   \<and> index (\<lambda>qs. concat (map question_text qs)) 1
        (snd (create_question 0 [] ''Future question.'' 30))
       = \<lparr>status_code = 200, content = ''No polls are available.'', latest_question_list = []\<rparr>
   \<and> index (\<lambda>qs. concat (map question_text qs)) 1 []
       = \<lparr>status_code = 200, content = ''No polls are available.'', latest_question_list = []\<rparr>"
proof -
  let ?db = "snd (create_question 0 [] ''Future question.'' 30)"
  let ?listing = "\<lambda>qs. concat (map question_text qs)"
  have db: "?db = [\<lparr>Question.pk = 1, question_text = ''Future question.'',
                    pub_date = Some 2592000000000, author_name = None\<rparr>]"
    by (simp add: create_question_def objects_create_def Let_def timedelta_def)
  have future: "\<forall>q \<in> set ?db. \<forall>t. Question.pub_date q = Some t \<longrightarrow> 1 < t"
    by (simp add: db)
  have none: "\<forall>q \<in> set []. \<forall>t. Question.pub_date q = Some t \<longrightarrow> (1::int) < t"
    by simp
  have shape: "r = \<lparr>status_code = 200, content = ''No polls are available.'',
                     latest_question_list = []\<rparr>"
    if "status_code r = 200 \<and> sublist ''No polls are available.'' (content r)
          \<and> latest_question_list r = []"
      and "content r = ''No polls are available.''" for r :: index_response
    using that by (cases r) simp
  have c1: "content (index ?listing 1 ?db) = ''No polls are available.''"
    using index_empty_state [OF future, of ?listing] by (simp add: index_def Let_def)
  have c0: "content (index ?listing 1 []) = ''No polls are available.''"
    using index_empty_state [OF none, of ?listing] by (simp add: index_def Let_def)
  from shape [OF index_empty_state [OF future, of ?listing] c1]
    shape [OF index_empty_state [OF none, of ?listing] c0] db
  show ?thesis by simp
qed

lemma detail_status:
  assumes d: "distinct (map Question.pk db)"
    and nn: "\<forall>q \<in> set db. Question.pub_date q \<noteq> None"
  shows "(status_code (detail now db i) = 404)
       = ((\<forall>q \<in> set db. Question.pk q \<noteq> i)
          \<or> (\<exists>q \<in> set db. \<exists>t. Question.pk q = i \<and> Question.pub_date q = Some t \<and> now < t))"
proof (cases "find (\<lambda>r. Question.pk r = i) db")
  case None
  then have "\<forall>q \<in> set db. Question.pk q \<noteq> i" by (simp add: find_pk_None)
  moreover from None have "status_code (detail now db i) = 404" by (simp add: detail_def)
  ultimately show ?thesis by simp
next
  case (Some q)
  from find_pk_SomeD [OF Some] have q: "q \<in> set db" "Question.pk q = i" by simp_all
  with nn obtain t where t: "Question.pub_date q = Some t" by blast
  have uniq: "r = q" if "r \<in> set db" "Question.pk r = i" for r
    using find_pk_distinct [OF d that(1)] that(2) Some by simp
  have st: "(status_code (detail now db i) = 404) = (now < t)"
    using Some t by (simp add: detail_def published_def not_le)
  have "(\<exists>r \<in> set db. \<exists>s. Question.pk r = i \<and> Question.pub_date r = Some s \<and> now < s)
          = (now < t)"
  proof
    assume "\<exists>r \<in> set db. \<exists>s. Question.pk r = i \<and> Question.pub_date r = Some s \<and> now < s"
    then obtain r s where r: "r \<in> set db" "Question.pk r = i"
        "Question.pub_date r = Some s" "now < s"
      by blast
    from uniq [OF r(1,2)] r(3,4) t show "now < t" by simp
  next
    assume "now < t"
    with q t
    show "\<exists>r \<in> set db. \<exists>s. Question.pk r = i \<and> Question.pub_date r = Some s \<and> now < s"
      by blast
  qed
  moreover from q have "\<not> (\<forall>q \<in> set db. Question.pk q \<noteq> i)" by blast
  ultimately show ?thesis using st by blast
qed

lemma detail_found:
  assumes "status_code (detail now db i) \<noteq> 404"
  shows "\<exists>q \<in> set db. Question.pk q = i
           \<and> detail now db i = \<lparr>status_code = 200, content = question_text q\<rparr>"
proof (cases "find (\<lambda>r. Question.pk r = i) db")
  case None
  with assms show ?thesis by (simp add: detail_def)
next
  case (Some q)
  from find_pk_SomeD [OF Some] have q: "q \<in> set db" "Question.pk q = i" by simp_all
  from Some assms have "detail now db i = \<lparr>status_code = 200, content = question_text q\<rparr>"
    by (simp add: detail_def split: if_splits)
  with q show ?thesis by blast
qed

text \<open>
  C7. In a table with unique keys whose rows all have a date, the detail view answers
  404 exactly when no Question has the requested key or the Question with that key is
  dated after \<open>now\<close>, although its row exists. Otherwise it answers 200 and the content
  contains the text of the Question. The index view never fails: its status is always
  200.
\<close>

theorem detail_not_found_iff:
  "distinct (map Question.pk db) \<Longrightarrow> \<forall>q \<in> set db. Question.pub_date q \<noteq> None \<Longrightarrow>
     ((status_code (detail now db i) = 404)
        = ((\<forall>q \<in> set db. Question.pk q \<noteq> i)
           \<or> (\<exists>q \<in> set db. \<exists>t. Question.pk q = i \<and> Question.pub_date q = Some t \<and> now < t)))
   \<and> (status_code (detail now db i) \<noteq> 404 \<longrightarrow>
        (\<exists>q \<in> set db. Question.pk q = i \<and> status_code (detail now db i) = 200
           \<and> sublist (question_text q) (content (detail now db i))))
   \<and> status_code (index listing now db) = 200"
proof -
  assume d: "distinct (map Question.pk db)"
    and nn: "\<forall>q \<in> set db. Question.pub_date q \<noteq> None"
  have found: "\<exists>q \<in> set db. Question.pk q = i \<and> status_code (detail now db i) = 200
           \<and> sublist (question_text q) (content (detail now db i))"
    if "status_code (detail now db i) \<noteq> 404"
  proof -
    from detail_found [OF that] obtain q where q: "q \<in> set db" "Question.pk q = i"
      and r: "detail now db i = \<lparr>status_code = 200, content = question_text q\<rparr>"
      by blast
    from r have "status_code (detail now db i) = 200"
      and "sublist (question_text q) (content (detail now db i))"
      by simp_all
    with q show ?thesis by blast
  qed
  from detail_status [OF d nn, of now i] found index_status [of listing now db]
  show ?thesis by blast
qed

theorem detail_not_found_iff_witness:
  "snd (create_question 0 (snd (create_question 0 [] ''Future question.'' 5))
         ''Past Question.'' (- 5))
     = [\<lparr>Question.pk = 1, question_text = ''Future question.'',
         pub_date = Some 432000000000, author_name = None\<rparr>,
        \<lparr>Question.pk = 2, question_text = ''Past Question.'',
         pub_date = Some (- 432000000000), author_name = None\<rparr>]
   \<and> status_code (detail 1
        (snd (create_question 0 (snd (create_question 0 [] ''Future question.'' 5))
               ''Past Question.'' (- 5))) 1) = 404
   \<and> detail 1
        (snd (create_question 0 (snd (create_question 0 [] ''Future question.'' 5))
               ''Past Question.'' (- 5))) 2
       = \<lparr>status_code = 200, content = ''Past Question.''\<rparr>
   \<and> status_code (detail 1
        (snd (create_question 0 (snd (create_question 0 [] ''Future question.'' 5))
               ''Past Question.'' (- 5))) 3) = 404"
proof -
  let ?db = "snd (create_question 0 (snd (create_question 0 [] ''Future question.'' 5))
                    ''Past Question.'' (- 5))"
  have db: "?db = [\<lparr>Question.pk = 1, question_text = ''Future question.'',
                    pub_date = Some 432000000000, author_name = None\<rparr>,
                   \<lparr>Question.pk = 2, question_text = ''Past Question.'',
                    pub_date = Some (- 432000000000), author_name = None\<rparr>]"
    by (simp add: create_question_def objects_create_def Let_def timedelta_def)
  have d: "distinct (map Question.pk ?db)" by (simp add: db)
  have nn: "\<forall>q \<in> set ?db. Question.pub_date q \<noteq> None" by (simp add: db)
  have two: "detail 1 ?db 2 = \<lparr>status_code = 200, content = ''Past Question.''\<rparr>"
    by (simp add: db detail_def published_def)
  from detail_not_found_iff [OF d nn, of 1 1] have one: "status_code (detail 1 ?db 1) = 404"
    by (simp add: db)
  from detail_not_found_iff [OF d nn, of 1 3] have three: "status_code (detail 1 ?db 3) = 404"
    by (simp add: db)
  from db one two three show ?thesis by blast
qed

section \<open>The vote counter\<close>

text \<open>
  C8, as the claim states it, fails: \<open>votes\<close> is an \<open>IntegerField\<close>, which holds negative
  integers too, so a Choice created with \<open>votes = -1\<close> has a negative counter.
\<close>

theorem votes_negative_counterexample:
  "\<not> 0 \<le> votes (Choice_init 1 1 ''Not much'' (Some (- 1)) None)"
  by (simp add: Choice_init_def)

text \<open>
  C8, amended. \<open>votes\<close> is an integer that the field does not restrict in sign: a Choice
  created with \<open>votes = v\<close> holds \<open>v\<close>. A Choice created without specifying \<open>votes\<close> has
  \<open>votes\<close> equal to 0, and \<open>was_published_recently\<close> leaves \<open>votes\<close> as it is, so no
  operation of this code makes a counter negative.
\<close>

theorem votes_default_zero_and_kept:
  "votes (Choice_init i q s None d) = 0
   \<and> votes (Choice_init i q s (Some v) d) = v
   \<and> votes (snd (Choice_was_published_recently_call now c)) = votes c"
  by (simp add: Choice_init_def Choice_was_published_recently_call_def Choice_step_eq)

end
